theory Spec2Isabelle
  imports Main "HOL-Library.AList"
begin

section \<open>ZapCall signaling worker: rooms registry and message relay\<close>

text \<open>
  The repository holds two variants of one Cloudflare worker: \<^verbatim>\<open>src/worker.js\<close> and
  \<^verbatim>\<open>src/unnamed/part_000\<close> (the same worker "with On-Demand Activation"). The second
  adds a \<^verbatim>\<open>heartbeat\<close> case to the dispatch switch, the counter
  \<^verbatim>\<open>activeConnections\<close> and \<^verbatim>\<open>checkIdleShutdown\<close>; every other function is
  the same text in both files. The variant is a parameter of the functions that differ.

  Modelled: the global \<^verbatim>\<open>rooms\<close>, \<^verbatim>\<open>sendToClient\<close>, \<^verbatim>\<open>broadcastToRoom\<close>,
  \<^verbatim>\<open>checkIdleShutdown\<close>, \<^verbatim>\<open>handleWebSocket\<close> with its \<^verbatim>\<open>message\<close> and
  \<^verbatim>\<open>close\<close> listeners, and the five handlers. Left out, since they neither read
  nor write that state: the HTTP and CORS answers, the \<^verbatim>\<open>queue\<close> and
  \<^verbatim>\<open>scheduled\<close> listeners, and the idle timer's callback, which writes one console
  line.
\<close>

datatype variant = Worker | OnDemand

subsection \<open>Values\<close>

text \<open>
  What a property of a parsed JSON message can be. The code uses \<^verbatim>\<open>roomId\<close> and
  \<^verbatim>\<open>userId\<close> as \<^verbatim>\<open>Map\<close> keys and prints them in template literals, compares
  \<^verbatim>\<open>type\<close> with string literals, and copies the payloads. \<open>Undefined\<close> is a missing
  property. \<open>Num\<close> stands for a JSON number that is an integer. \<open>Obj n b\<close> is an
  object or an array: \<open>n\<close> is its reference (a \<^verbatim>\<open>Map\<close> compares objects by
  identity), and \<open>b\<close> tells whether converting it to a string throws a TypeError, as
  it does for \<^verbatim>\<open>{"toString": null}\<close> and for an array that holds such an object.
\<close>

datatype jsval = Undefined | Null | Bool bool | Num int | Str string | Obj nat bool

text \<open>
  \<^verbatim>\<open>`${x}`\<close>: a template literal converts \<open>x\<close> to a string. Every primitive has a
  string; an object has one unless its conversion throws.
\<close>

fun toStringThrows :: "jsval \<Rightarrow> bool" where
  "toStringThrows (Obj n b) = b"
| "toStringThrows x = False"

text \<open>The parsed message: the properties the handlers read.\<close>

record message =
  msgType :: jsval
  roomId :: jsval
  userId :: jsval
  sender :: jsval
  offer :: jsval
  answer :: jsval
  candidate :: jsval

text \<open>
  \<^verbatim>\<open>JSON.parse(event.data)\<close> throws on text that is not JSON, returns \<^verbatim>\<open>null\<close>
  (reading \<^verbatim>\<open>message.type\<close> then throws a TypeError), or returns a value whose
  properties can be read (a number, string, boolean or array has none of them: every
  field is \<open>Undefined\<close>).
\<close>

datatype event_data = Unparseable | ParsedNull | Parsed message

text \<open>The object literals the worker passes to \<^verbatim>\<open>sendToClient\<close>.\<close>

datatype out_msg =
    Connected
  | HeartbeatAck
  | PeerJoined jsval jsval
  | PeerLeft jsval jsval
  | Offer jsval jsval
  | Answer jsval jsval
  | IceCandidate jsval jsval

text \<open>The lines written with \<^verbatim>\<open>console.log\<close> and \<^verbatim>\<open>console.error\<close>.\<close>

datatype log_line =
    LogUserJoined jsval jsval
  | LogUserLeft jsval jsval
  | LogRoomHas jsval nat
  | LogRoomRemoved jsval
  | LogUnknownType jsval
  | LogErrorHandling
  | LogNewConnection int
  | LogConnectionClosed int
  | LogNoActiveConnections

datatype ready_state = CONNECTING | OPEN | CLOSING | CLOSED

text \<open>A room's entry \<^verbatim>\<open>{ socket: socket, socketId: socketId }\<close>; a socket is a reference.\<close>

record client =
  socket :: nat
  socketId :: string

text \<open>
  The worker's state. \<open>rooms\<close> is the global \<^verbatim>\<open>Map\<close> of \<^verbatim>\<open>Map\<close>s, as
  association lists in insertion order (the order \<^verbatim>\<open>forEach\<close> visits).
  \<open>readyState\<close> is the \<^verbatim>\<open>readyState\<close> of every socket, \<open>sent\<close> the calls of
  \<^verbatim>\<open>webSocket.send\<close> in order (the message before \<^verbatim>\<open>JSON.stringify\<close>),
  \<open>idleTimer\<close> whether the variable holds a timer.
\<close>

record state =
  rooms :: "(jsval \<times> (jsval \<times> client) list) list"
  readyState :: "nat \<Rightarrow> ready_state"
  sent :: "(nat \<times> out_msg) list"
  console :: "log_line list"
  activeConnections :: int
  idleTimer :: bool

definition init :: state where
  "init = \<lparr>rooms = [], readyState = (\<lambda>_. CONNECTING), sent = [], console = [],
            activeConnections = 0, idleTimer = False\<rparr>"

definition log :: "log_line \<Rightarrow> state \<Rightarrow> state" where
  "log l s = s\<lparr>console := console s @ [l]\<rparr>"

text \<open>
  How a call ends: it returns, or it throws a TypeError; either way with the state it has
  reached by then.
\<close>

datatype outcome = Returns state | Throws state

fun stateOf :: "outcome \<Rightarrow> state" where
  "stateOf (Returns s) = s"
| "stateOf (Throws s) = s"

subsection \<open>The helpers\<close>

text \<open>
  \<^verbatim>\<open>sendToClient\<close> writes to a socket only when its \<^verbatim>\<open>readyState\<close> is
  \<^verbatim>\<open>READY_STATE_OPEN\<close>; a \<^verbatim>\<open>send\<close> on an open socket is taken not to throw.
\<close>

definition sendToClient :: "nat \<Rightarrow> out_msg \<Rightarrow> state \<Rightarrow> state" where
  "sendToClient webSocket msg s =
     (if readyState s webSocket = OPEN then s\<lparr>sent := sent s @ [(webSocket, msg)]\<rparr> else s)"

definition broadcastToRoom :: "jsval \<Rightarrow> out_msg \<Rightarrow> string \<Rightarrow> state \<Rightarrow> state" where
  "broadcastToRoom r msg excludeSocketId s =
     (case map_of (rooms s) r of
        None \<Rightarrow> s
      | Some room \<Rightarrow>
          fold (\<lambda>(u, c) st.
                  if socketId c \<noteq> excludeSocketId then sendToClient (socket c) msg st else st)
               room s)"

definition checkIdleShutdown :: "state \<Rightarrow> state" where
  "checkIdleShutdown s =
     (if activeConnections s = 0 then (log LogNoActiveConnections s)\<lparr>idleTimer := True\<rparr>
      else if idleTimer s then s\<lparr>idleTimer := False\<rparr> else s)"

subsection \<open>The handlers\<close>

text \<open>
  \<^verbatim>\<open>handleJoinRoom\<close> registers the entry, then prints
  \<^verbatim>\<open>`User ${userId} joined room ${roomId}`\<close>: when one of the two has no string, the
  TypeError leaves the function there, after \<^verbatim>\<open>room.set\<close> and before anything is
  logged or broadcast.
\<close>

definition handleJoinRoom :: "nat \<Rightarrow> string \<Rightarrow> message \<Rightarrow> state \<Rightarrow> outcome" where
  "handleJoinRoom sock sid data s =
     (let r = roomId data; u = userId data;
          rooms1 = (if map_of (rooms s) r = None then AList.update r [] (rooms s) else rooms s);
          room = (case map_of rooms1 r of None \<Rightarrow> [] | Some m \<Rightarrow> m);
          room' = AList.update u \<lparr>socket = sock, socketId = sid\<rparr> room;
          s1 = s\<lparr>rooms := AList.update r room' rooms1\<rparr>
      in if toStringThrows u \<or> toStringThrows r then Throws s1
         else
           let s2 = log (LogRoomHas r (length room')) (log (LogUserJoined u r) s1)
           in Returns (broadcastToRoom r (PeerJoined r u) sid s2))"

text \<open>
  \<^verbatim>\<open>handleLeaveRoom\<close> likewise prints \<^verbatim>\<open>`User ${userId} left room ${roomId}`\<close>
  right after \<^verbatim>\<open>room.delete\<close>: a TypeError there skips the broadcast and the removal
  of the empty room.
\<close>

definition handleLeaveRoom :: "nat \<Rightarrow> string \<Rightarrow> message \<Rightarrow> state \<Rightarrow> outcome" where
  "handleLeaveRoom sock sid data s =
     (let r = roomId data; u = userId data in
      case map_of (rooms s) r of
        None \<Rightarrow> Returns s
      | Some room \<Rightarrow>
          (let room' = AList.delete u room;
               s1 = s\<lparr>rooms := AList.update r room' (rooms s)\<rparr>
           in if toStringThrows u \<or> toStringThrows r then Throws s1
              else
                let s2 = log (LogRoomHas r (length room')) (log (LogUserLeft u r) s1);
                    s3 = broadcastToRoom r (PeerLeft r u) sid s2
                in Returns (if length room' = 0
                            then log (LogRoomRemoved r) (s3\<lparr>rooms := AList.delete r (rooms s3)\<rparr>)
                            else s3)))"

definition handleOffer :: "nat \<Rightarrow> string \<Rightarrow> message \<Rightarrow> state \<Rightarrow> state" where
  "handleOffer sock sid data s = broadcastToRoom (roomId data) (Offer (sender data) (offer data)) sid s"

definition handleAnswer :: "nat \<Rightarrow> string \<Rightarrow> message \<Rightarrow> state \<Rightarrow> state" where
  "handleAnswer sock sid data s =
     broadcastToRoom (roomId data) (Answer (sender data) (answer data)) sid s"

definition handleIceCandidate :: "nat \<Rightarrow> string \<Rightarrow> message \<Rightarrow> state \<Rightarrow> state" where
  "handleIceCandidate sock sid data s =
     broadcastToRoom (roomId data) (IceCandidate (sender data) (candidate data)) sid s"

subsection \<open>The listeners of one connection\<close>

text \<open>
  \<^verbatim>\<open>JSON.parse\<close> builds new objects, so an object in a message is none of the keys
  the registry holds. \<open>parsed s m\<close> is the message \<open>m\<close> as it is parsed in state \<open>s\<close>:
  the two properties used as keys, when they are objects, have references the registry
  does not hold. The other properties are only copied.
\<close>

definition keysOf :: "(jsval \<times> (jsval \<times> client) list) list \<Rightarrow> jsval list" where
  "keysOf rs = map fst rs @ concat (map (\<lambda>(r, m). map fst m) rs)"

fun newRef :: "jsval list \<Rightarrow> nat" where
  "newRef [] = 0"
| "newRef (Obj n b # ks) = max (Suc n) (newRef ks)"
| "newRef (x # ks) = newRef ks"

fun asNew :: "nat \<Rightarrow> jsval \<Rightarrow> jsval" where
  "asNew n (Obj i b) = Obj n b"
| "asNew n x = x"

definition parsed :: "state \<Rightarrow> message \<Rightarrow> message" where
  "parsed s m =
     (let n = newRef (keysOf (rooms s))
      in m\<lparr>roomId := asNew n (roomId m), userId := asNew (Suc n) (userId m)\<rparr>)"

text \<open>
  The \<^verbatim>\<open>message\<close> listener of the connection \<open>(server, sid)\<close>: the
  \<^verbatim>\<open>try\<close> block, whose \<^verbatim>\<open>catch\<close> logs the error and goes on with the state
  as the throw left it. \<^verbatim>\<open>src/worker.js\<close> has no \<^verbatim>\<open>heartbeat\<close> case: there the
  message takes the \<^verbatim>\<open>default\<close> branch.
\<close>

definition onMessage :: "variant \<Rightarrow> nat \<Rightarrow> string \<Rightarrow> event_data \<Rightarrow> state \<Rightarrow> state" where
  "onMessage v server sid d s =
     (case d of
        Unparseable \<Rightarrow> log LogErrorHandling s
      | ParsedNull \<Rightarrow> log LogErrorHandling s
      | Parsed m0 \<Rightarrow>
          (let m = parsed s m0 in
           case (if msgType m = Str ''join-room'' then handleJoinRoom server sid m s
                 else if msgType m = Str ''leave-room'' then handleLeaveRoom server sid m s
                 else if msgType m = Str ''offer'' then Returns (handleOffer server sid m s)
                 else if msgType m = Str ''answer'' then Returns (handleAnswer server sid m s)
                 else if msgType m = Str ''ice-candidate''
                   then Returns (handleIceCandidate server sid m s)
                 else if msgType m = Str ''heartbeat'' \<and> v = OnDemand
                   then Returns (sendToClient server HeartbeatAck s)
                 else Returns (log (LogUnknownType (msgType m)) s)) of
             Returns t \<Rightarrow> t
           | Throws t \<Rightarrow> log LogErrorHandling t))"

text \<open>The object \<^verbatim>\<open>{ roomId: roomId, userId: userId }\<close> the \<^verbatim>\<open>close\<close> listener builds.\<close>

definition leaveData :: "jsval \<Rightarrow> jsval \<Rightarrow> message" where
  "leaveData r u = \<lparr>msgType = Undefined, roomId = r, userId = u, sender = Undefined,
                    offer = Undefined, answer = Undefined, candidate = Undefined\<rparr>"

text \<open>
  The \<^verbatim>\<open>close\<close> listener's two \<^verbatim>\<open>forEach\<close> loops run over maps that
  \<^verbatim>\<open>handleLeaveRoom\<close> changes meanwhile. \<^verbatim>\<open>Map.prototype.forEach\<close> visits the
  entries in insertion order and skips an entry deleted before its turn; nothing is
  inserted here. So each loop goes through the keys present when it starts and looks
  every one up in the map as it is then. The inner loop's map \<^verbatim>\<open>clients\<close> is taken
  out of \<open>rooms\<close> only when it is empty, so once its room is gone it has no entry left.
  The listener has no \<^verbatim>\<open>try\<close>: a TypeError thrown by \<^verbatim>\<open>handleLeaveRoom\<close>
  ends both loops, and the entries not yet visited stay.
\<close>

definition clientsOf :: "state \<Rightarrow> jsval \<Rightarrow> (jsval \<times> client) list" where
  "clientsOf s r = (case map_of (rooms s) r of None \<Rightarrow> [] | Some m \<Rightarrow> m)"

fun closeClients :: "nat \<Rightarrow> string \<Rightarrow> jsval \<Rightarrow> jsval list \<Rightarrow> state \<Rightarrow> outcome" where
  "closeClients server sid r [] s = Returns s"
| "closeClients server sid r (u # us) s =
     (case map_of (clientsOf s r) u of
        None \<Rightarrow> closeClients server sid r us s
      | Some c \<Rightarrow>
          if socketId c = sid
          then (case handleLeaveRoom server sid (leaveData r u) s of
                  Returns t \<Rightarrow> closeClients server sid r us t
                | Throws t \<Rightarrow> Throws t)
          else closeClients server sid r us s)"

fun closeRooms :: "nat \<Rightarrow> string \<Rightarrow> jsval list \<Rightarrow> state \<Rightarrow> outcome" where
  "closeRooms server sid [] s = Returns s"
| "closeRooms server sid (r # rs) s =
     (case map_of (rooms s) r of
        None \<Rightarrow> closeRooms server sid rs s
      | Some clients \<Rightarrow>
          (case closeClients server sid r (map fst clients) s of
             Returns t \<Rightarrow> closeRooms server sid rs t
           | Throws t \<Rightarrow> Throws t))"

definition onClose :: "variant \<Rightarrow> nat \<Rightarrow> string \<Rightarrow> state \<Rightarrow> outcome" where
  "onClose v server sid s =
     (let s1 = (case v of
                  Worker \<Rightarrow> s
                | OnDemand \<Rightarrow>
                    checkIdleShutdown
                      (log (LogConnectionClosed (activeConnections s - 1))
                         (s\<lparr>activeConnections := activeConnections s - 1\<rparr>)))
      in closeRooms server sid (map fst (rooms s1)) s1)"

subsection \<open>Accepting a connection\<close>

text \<open>
  \<^verbatim>\<open>'socket_' + Math.random().toString(36).substr(2, 9)\<close>: \<open>rnd\<close> is the text
  \<^verbatim>\<open>Math.random().toString(36)\<close>; \<^verbatim>\<open>substr(2, 9)\<close> keeps at most nine characters
  from index 2 on.
\<close>

definition newSocketId :: "string \<Rightarrow> string" where
  "newSocketId rnd = ''socket_'' @ take 9 (drop 2 rnd)"

datatype response = Status426 | Status101 nat string

text \<open>
  \<^verbatim>\<open>handleWebSocket\<close>: \<open>server\<close> is the server end of the new
  \<^verbatim>\<open>WebSocketPair\<close>, opened by \<^verbatim>\<open>server.accept()\<close>. The answer 101 carries the
  pair \<open>(server, socketId)\<close> the two listeners are closed over.
\<close>

definition handleWebSocket :: "variant \<Rightarrow> jsval \<Rightarrow> string \<Rightarrow> nat \<Rightarrow> state \<Rightarrow> response \<times> state" where
  "handleWebSocket v upgradeHeader rnd server s =
     (if upgradeHeader \<noteq> Str ''websocket'' then (Status426, s)
      else
        let sid = newSocketId rnd;
            s1 = s\<lparr>readyState := (readyState s)(server := OPEN)\<rparr>;
            s2 = (case v of
                    Worker \<Rightarrow> s1
                  | OnDemand \<Rightarrow>
                      log (LogNewConnection (activeConnections s1 + 1))
                        (s1\<lparr>activeConnections := activeConnections s1 + 1\<rparr>))
        in (Status101 server sid, sendToClient server Connected s2))"

subsection \<open>The states the worker reaches\<close>

text \<open>
  \<open>reach v cs s\<close>: the worker of variant \<open>v\<close> is in state \<open>s\<close> after some sequence of
  events, having accepted the connections \<open>cs\<close> (each a fresh server socket with the
  identifier drawn for it). An event is an accepted upgrade, a message or the close of an
  accepted connection, or the transport changing the \<^verbatim>\<open>readyState\<close> of sockets.
  After a \<^verbatim>\<open>close\<close> listener that threw, the worker goes on from the state the throw
  left.
\<close>

inductive reach :: "variant \<Rightarrow> (nat \<times> string) list \<Rightarrow> state \<Rightarrow> bool" for v :: variant where
  reach_init: "reach v [] init"
| reach_accept:
    "reach v cs s \<Longrightarrow> server \<notin> fst ` set cs \<Longrightarrow>
     handleWebSocket v (Str ''websocket'') rnd server s = (Status101 server sid, s') \<Longrightarrow>
     reach v ((server, sid) # cs) s'"
| reach_message:
    "reach v cs s \<Longrightarrow> (server, sid) \<in> set cs \<Longrightarrow> reach v cs (onMessage v server sid d s)"
| reach_close:
    "reach v cs s \<Longrightarrow> (server, sid) \<in> set cs \<Longrightarrow>
     reach v cs (stateOf (onClose v server sid s))"
| reach_transport:
    "reach v cs s \<Longrightarrow> reach v cs (s\<lparr>readyState := f\<rparr>)"

subsection \<open>Vocabulary of the statements\<close>

text \<open>
  The sockets a broadcast on a room's map writes to, in order: the entries whose
  \<^verbatim>\<open>socketId\<close> is not the excluded one and whose socket \<^verbatim>\<open>sendToClient\<close> finds
  open.
\<close>

definition openOthers :: "(nat \<Rightarrow> ready_state) \<Rightarrow> string \<Rightarrow> (jsval \<times> client) list \<Rightarrow> nat list" where
  "openOthers rs ex room =
     map (socket \<circ> snd) (filter (\<lambda>(u, c). socketId c \<noteq> ex \<and> rs (socket c) = OPEN) room)"

subsection \<open>Example messages and states\<close>

definition joinMsg :: "jsval \<Rightarrow> jsval \<Rightarrow> message" where
  "joinMsg r u = \<lparr>msgType = Str ''join-room'', roomId = r, userId = u, sender = Undefined,
                  offer = Undefined, answer = Undefined, candidate = Undefined\<rparr>"

definition leaveMsg :: "jsval \<Rightarrow> jsval \<Rightarrow> message" where
  "leaveMsg r u = \<lparr>msgType = Str ''leave-room'', roomId = r, userId = u, sender = Undefined,
                   offer = Undefined, answer = Undefined, candidate = Undefined\<rparr>"

definition offerMsg :: "jsval \<Rightarrow> jsval \<Rightarrow> jsval \<Rightarrow> message" where
  "offerMsg r sn p = \<lparr>msgType = Str ''offer'', roomId = r, userId = Undefined, sender = sn,
                      offer = p, answer = Undefined, candidate = Undefined\<rparr>"

definition answerMsg :: "jsval \<Rightarrow> jsval \<Rightarrow> jsval \<Rightarrow> message" where
  "answerMsg r sn p = \<lparr>msgType = Str ''answer'', roomId = r, userId = Undefined, sender = sn,
                       offer = Undefined, answer = p, candidate = Undefined\<rparr>"

definition candidateMsg :: "jsval \<Rightarrow> jsval \<Rightarrow> jsval \<Rightarrow> message" where
  "candidateMsg r sn p = \<lparr>msgType = Str ''ice-candidate'', roomId = r, userId = Undefined,
                          sender = sn, offer = Undefined, answer = Undefined, candidate = p\<rparr>"

definition heartbeatMsg :: message where
  "heartbeatMsg = \<lparr>msgType = Str ''heartbeat'', roomId = Undefined, userId = Undefined,
                   sender = Undefined, offer = Undefined, answer = Undefined,
                   candidate = Undefined\<rparr>"

text \<open>Three connections: sockets 1, 2 and 3, with the random texts drawn for them.\<close>

definition sidA :: string where "sidA = newSocketId ''0.k3j9x0q2mzp''"

definition sidB :: string where "sidB = newSocketId ''0.7c1w5e8r2ty''"

definition sidC :: string where "sidC = newSocketId ''0.m4n8b2v6cxl''"

definition opened :: "variant \<Rightarrow> state" where
  "opened v =
     snd (handleWebSocket v (Str ''websocket'') ''0.m4n8b2v6cxl'' 3
       (snd (handleWebSocket v (Str ''websocket'') ''0.7c1w5e8r2ty'' 2
         (snd (handleWebSocket v (Str ''websocket'') ''0.k3j9x0q2mzp'' 1 init)))))"

text \<open>Connection 1 joins the room lobby as alice, then connection 2 as bob.\<close>

definition lobbyA :: "variant \<Rightarrow> state" where
  "lobbyA v = onMessage v 1 sidA (Parsed (joinMsg (Str ''lobby'') (Str ''alice''))) (opened v)"

definition lobbyAB :: "variant \<Rightarrow> state" where
  "lobbyAB v = onMessage v 2 sidB (Parsed (joinMsg (Str ''lobby'') (Str ''bob''))) (lobbyA v)"

text \<open>Two connections whose random texts agree on the nine characters kept.\<close>

definition twins :: "variant \<Rightarrow> state" where
  "twins v =
     snd (handleWebSocket v (Str ''websocket'') ''0.4fzyo82mvzz'' 2
       (snd (handleWebSocket v (Str ''websocket'') ''0.4fzyo82mvyr'' 1 init)))"

text \<open>Both join the room lobby, as alice and as bob.\<close>

definition twinsLobby :: "variant \<Rightarrow> state" where
  "twinsLobby v =
     onMessage v 2 ''socket_4fzyo82mv'' (Parsed (joinMsg (Str ''lobby'') (Str ''bob'')))
       (onMessage v 1 ''socket_4fzyo82mv'' (Parsed (joinMsg (Str ''lobby'') (Str ''alice''))) (twins v))"

text \<open>
  A \<^verbatim>\<open>userId\<close> that has no string: the object \<^verbatim>\<open>{"toString": null}\<close>.
\<close>

definition noString :: jsval where
  "noString = Obj 0 True"

text \<open>
  Connection 1 sends \<^verbatim>\<open>{"type": "join-room", "roomId": "lobby", "userId": {"toString": null}}\<close>
  and is closed.
\<close>

definition strayJoined :: "variant \<Rightarrow> state" where
  "strayJoined v = onMessage v 1 sidA (Parsed (joinMsg (Str ''lobby'') noString)) (opened v)"

definition strayClosed :: "variant \<Rightarrow> state" where
  "strayClosed v = stateOf (onClose v 1 sidA (strayJoined v))"

text \<open>
  Connection 1 joins the room den with that \<^verbatim>\<open>userId\<close>, then the lobby as alice;
  connection 2 joins the lobby as bob.
\<close>

definition denLobby :: "variant \<Rightarrow> state" where
  "denLobby v =
     onMessage v 2 sidB (Parsed (joinMsg (Str ''lobby'') (Str ''bob'')))
       (onMessage v 1 sidA (Parsed (joinMsg (Str ''lobby'') (Str ''alice'')))
         (onMessage v 1 sidA (Parsed (joinMsg (Str ''den'') noString)) (opened v)))"


section \<open>Properties\<close>

subsection \<open>Broadcast in closed form\<close>

lemma fold_send:
  "fold (\<lambda>(u, c) st. if socketId c \<noteq> ex then sendToClient (socket c) m st else st) room s =
   s\<lparr>sent := sent s @ map (\<lambda>w. (w, m)) (openOthers (readyState s) ex room)\<rparr>"
proof (induction room arbitrary: s)
  case Nil
  show ?case by (simp add: openOthers_def)
next
  case (Cons p room)
  obtain u c where p: "p = (u, c)" by (cases p)
  show ?case
    by (simp add: p Cons.IH sendToClient_def openOthers_def)
qed

lemma broadcastToRoom_eq:
  "broadcastToRoom r m ex s =
     s\<lparr>sent := sent s @ map (\<lambda>w. (w, m)) (openOthers (readyState s) ex (clientsOf s r))\<rparr>"
  by (simp add: broadcastToRoom_def clientsOf_def fold_send openOthers_def split: option.split)

subsection \<open>Parsed messages\<close>

lemma toStringThrows_asNew [simp]: "toStringThrows (asNew n x) = toStringThrows x"
  by (cases x) simp_all

lemma parsed_fields [simp]:
  "msgType (parsed s m) = msgType m" "sender (parsed s m) = sender m"
  "offer (parsed s m) = offer m" "answer (parsed s m) = answer m"
  "candidate (parsed s m) = candidate m"
  by (simp_all add: parsed_def Let_def)





subsection \<open>The handlers in closed form\<close>

lemma handleLeaveRoom_closed:
  assumes "\<not> toStringThrows (roomId d)" and "\<not> toStringThrows (userId d)"
  shows "handleLeaveRoom k sid d s =
     Returns
       (case map_of (rooms s) (roomId d) of
          None \<Rightarrow> s
        | Some room \<Rightarrow>
            s\<lparr>rooms := (if AList.delete (userId d) room = [] then AList.delete (roomId d) (rooms s)
                        else AList.update (roomId d) (AList.delete (userId d) room) (rooms s)),
              sent := sent s @ map (\<lambda>w. (w, PeerLeft (roomId d) (userId d)))
                                 (openOthers (readyState s) sid (AList.delete (userId d) room)),
              console := console s @ [LogUserLeft (userId d) (roomId d),
                                      LogRoomHas (roomId d) (length (AList.delete (userId d) room))]
                           @ (if AList.delete (userId d) room = [] then [LogRoomRemoved (roomId d)]
                              else [])\<rparr>)"
  using assms
  by (simp add: handleLeaveRoom_def Let_def broadcastToRoom_eq log_def clientsOf_def
      AList.update_conv' AList.delete_update_same split: option.split)

lemma handleJoinRoom_closed:
  assumes "\<not> toStringThrows (roomId d)" and "\<not> toStringThrows (userId d)"
  shows "handleJoinRoom k sid d s =
     Returns
       (s\<lparr>rooms := AList.update (roomId d)
                      (AList.update (userId d) \<lparr>socket = k, socketId = sid\<rparr> (clientsOf s (roomId d)))
                      (rooms s),
           sent := sent s @ map (\<lambda>w. (w, PeerJoined (roomId d) (userId d)))
                              (openOthers (readyState s) sid
                                 (AList.update (userId d) \<lparr>socket = k, socketId = sid\<rparr>
                                    (clientsOf s (roomId d)))),
           console := console s @ [LogUserJoined (userId d) (roomId d),
                                   LogRoomHas (roomId d)
                                     (length (AList.update (userId d) \<lparr>socket = k, socketId = sid\<rparr>
                                                (clientsOf s (roomId d))))]\<rparr>)"
  using assms
  by (simp add: handleJoinRoom_def Let_def broadcastToRoom_eq log_def clientsOf_def
      AList.update_conv' split: option.split)

lemma handleJoinRoom_throws:
  assumes "toStringThrows (roomId d) \<or> toStringThrows (userId d)"
  shows "handleJoinRoom k sid d s =
     Throws
       (s\<lparr>rooms := AList.update (roomId d)
                      (AList.update (userId d) \<lparr>socket = k, socketId = sid\<rparr> (clientsOf s (roomId d)))
                      (rooms s)\<rparr>)"
  using assms
  by (auto simp: handleJoinRoom_def Let_def clientsOf_def AList.update_conv' split: option.split)

lemma handleLeaveRoom_throws:
  assumes "toStringThrows (roomId d) \<or> toStringThrows (userId d)"
    and "map_of (rooms s) (roomId d) = Some room"
  shows "handleLeaveRoom k sid d s =
     Throws (s\<lparr>rooms := AList.update (roomId d) (AList.delete (userId d) room) (rooms s)\<rparr>)"
  using assms
  by (auto simp: handleLeaveRoom_def Let_def)

lemma readyState_handleJoinRoom: "readyState (stateOf (handleJoinRoom k sid d s)) = readyState s"
  by (simp add: handleJoinRoom_def Let_def broadcastToRoom_eq log_def)

lemma readyState_handleLeaveRoom: "readyState (stateOf (handleLeaveRoom k sid d s)) = readyState s"
  by (simp add: handleLeaveRoom_def Let_def broadcastToRoom_eq log_def split: option.split)

lemma readyState_catch:
  "readyState (case x of Returns t \<Rightarrow> t | Throws t \<Rightarrow> log LogErrorHandling t) = readyState (stateOf x)"
  by (cases x) (simp_all add: log_def)

lemma readyState_onMessage: "readyState (onMessage v k sid d s) = readyState s"
proof (cases d)
  case (Parsed m0)
  show ?thesis
    unfolding Parsed onMessage_def Let_def event_data.case readyState_catch
    by (simp add: readyState_handleJoinRoom readyState_handleLeaveRoom handleOffer_def
        handleAnswer_def handleIceCandidate_def broadcastToRoom_eq sendToClient_def log_def)
qed (simp_all add: onMessage_def log_def)


lemma onMessage_join:
  "msgType m = Str ''join-room'' \<Longrightarrow>
   onMessage v k sid (Parsed m) s =
     (case handleJoinRoom k sid (parsed s m) s of
        Returns t \<Rightarrow> t
      | Throws t \<Rightarrow> log LogErrorHandling t)"
  by (simp add: onMessage_def Let_def)

lemma parsed_strings:
  "parsed s (joinMsg (Str r) (Str u)) = joinMsg (Str r) (Str u)"
  "parsed s (leaveMsg (Str r) (Str u)) = leaveMsg (Str r) (Str u)"
  "parsed s (joinMsg (Str r) Undefined) = joinMsg (Str r) Undefined"
  "parsed s (offerMsg (Str r) sn p) = offerMsg (Str r) sn p"
  "parsed s (answerMsg (Str r) sn p) = answerMsg (Str r) sn p"
  "parsed s (candidateMsg (Str r) sn p) = candidateMsg (Str r) sn p"
  by (simp_all add: parsed_def Let_def joinMsg_def leaveMsg_def offerMsg_def answerMsg_def
      candidateMsg_def)

subsection \<open>The example states\<close>

lemma sid_values:
  "sidA = ''socket_k3j9x0q2m''" "sidB = ''socket_7c1w5e8r2''" "sidC = ''socket_m4n8b2v6c''"
  by (simp_all add: sidA_def sidB_def sidC_def newSocketId_def)

lemma opened_OnDemand:
  "opened OnDemand =
     \<lparr>rooms = [], readyState = (\<lambda>_. CONNECTING)(1 := OPEN, 2 := OPEN, 3 := OPEN),
      sent = [(1, Connected), (2, Connected), (3, Connected)],
      console = [LogNewConnection 1, LogNewConnection 2, LogNewConnection 3],
      activeConnections = 3, idleTimer = False\<rparr>"
  by (simp add: opened_def handleWebSocket_def init_def sendToClient_def log_def Let_def)

lemma opened_Worker:
  "opened Worker =
     \<lparr>rooms = [], readyState = (\<lambda>_. CONNECTING)(1 := OPEN, 2 := OPEN, 3 := OPEN),
      sent = [(1, Connected), (2, Connected), (3, Connected)],
      console = [], activeConnections = 0, idleTimer = False\<rparr>"
  by (simp add: opened_def handleWebSocket_def init_def sendToClient_def log_def Let_def)

lemma lobbyA_OnDemand:
  "lobbyA OnDemand =
     \<lparr>rooms = [(Str ''lobby'', [(Str ''alice'', \<lparr>socket = 1, socketId = ''socket_k3j9x0q2m''\<rparr>)])],
      readyState = (\<lambda>_. CONNECTING)(1 := OPEN, 2 := OPEN, 3 := OPEN),
      sent = [(1, Connected), (2, Connected), (3, Connected)],
      console = [LogNewConnection 1, LogNewConnection 2, LogNewConnection 3,
                 LogUserJoined (Str ''alice'') (Str ''lobby''), LogRoomHas (Str ''lobby'') 1],
      activeConnections = 3, idleTimer = False\<rparr>"
  by (simp add: lobbyA_def opened_OnDemand onMessage_def parsed_def keysOf_def joinMsg_def
      handleJoinRoom_def Let_def broadcastToRoom_def sendToClient_def log_def sid_values)

lemma lobbyAB_OnDemand:
  "lobbyAB OnDemand =
     \<lparr>rooms = [(Str ''lobby'', [(Str ''alice'', \<lparr>socket = 1, socketId = ''socket_k3j9x0q2m''\<rparr>),
                                (Str ''bob'', \<lparr>socket = 2, socketId = ''socket_7c1w5e8r2''\<rparr>)])],
      readyState = (\<lambda>_. CONNECTING)(1 := OPEN, 2 := OPEN, 3 := OPEN),
      sent = [(1, Connected), (2, Connected), (3, Connected),
              (1, PeerJoined (Str ''lobby'') (Str ''bob''))],
      console = [LogNewConnection 1, LogNewConnection 2, LogNewConnection 3,
                 LogUserJoined (Str ''alice'') (Str ''lobby''), LogRoomHas (Str ''lobby'') 1,
                 LogUserJoined (Str ''bob'') (Str ''lobby''), LogRoomHas (Str ''lobby'') 2],
      activeConnections = 3, idleTimer = False\<rparr>"
  by (simp add: lobbyAB_def lobbyA_OnDemand onMessage_def parsed_def keysOf_def joinMsg_def
      handleJoinRoom_def Let_def broadcastToRoom_def sendToClient_def log_def sid_values)

lemma opened_fields:
  "rooms (opened v) = []"
  "readyState (opened v) = (\<lambda>_. CONNECTING)(1 := OPEN, 2 := OPEN, 3 := OPEN)"
  "sent (opened v) = [(1, Connected), (2, Connected), (3, Connected)]"
  by (cases v; simp add: opened_def handleWebSocket_def init_def sendToClient_def log_def Let_def)+

lemma lobbyAB_fields:
  "rooms (lobbyAB v) =
     [(Str ''lobby'', [(Str ''alice'', \<lparr>socket = 1, socketId = sidA\<rparr>),
                      (Str ''bob'', \<lparr>socket = 2, socketId = sidB\<rparr>)])]"
  "readyState (lobbyAB v) = (\<lambda>_. CONNECTING)(1 := OPEN, 2 := OPEN, 3 := OPEN)"
  "sent (lobbyAB v) = [(1, Connected), (2, Connected), (3, Connected),
                       (1, PeerJoined (Str ''lobby'') (Str ''bob''))]"
  by (simp_all add: lobbyAB_def lobbyA_def onMessage_def parsed_def keysOf_def joinMsg_def
      handleJoinRoom_def Let_def broadcastToRoom_def sendToClient_def log_def sid_values
      opened_fields)

lemma reach_opened: "reach v [(3, sidC), (2, sidB), (1, sidA)] (opened v)"
proof -
  let ?s1 = "snd (handleWebSocket v (Str ''websocket'') ''0.k3j9x0q2mzp'' 1 init)"
  let ?s2 = "snd (handleWebSocket v (Str ''websocket'') ''0.7c1w5e8r2ty'' 2 ?s1)"
  have 1: "reach v [(1, sidA)] ?s1"
    by (rule reach_accept [OF reach_init, where rnd = "''0.k3j9x0q2mzp''"])
      (simp_all add: handleWebSocket_def Let_def sidA_def)
  have 2: "reach v [(2, sidB), (1, sidA)] ?s2"
    by (rule reach_accept [OF 1, where rnd = "''0.7c1w5e8r2ty''"])
      (simp_all add: handleWebSocket_def Let_def sidB_def)
  show ?thesis
    unfolding opened_def
    by (rule reach_accept [OF 2, where rnd = "''0.m4n8b2v6cxl''"])
      (simp_all add: handleWebSocket_def Let_def sidC_def)
qed

lemma reach_lobbyAB: "reach v [(3, sidC), (2, sidB), (1, sidA)] (lobbyAB v)"
  unfolding lobbyAB_def lobbyA_def
  by (intro reach_message reach_opened) simp_all

lemma twins_ids:
  "newSocketId ''0.4fzyo82mvyr'' = ''socket_4fzyo82mv''"
  "newSocketId ''0.4fzyo82mvzz'' = ''socket_4fzyo82mv''"
  by (simp_all add: newSocketId_def)

lemma twins_fields:
  "rooms (twins v) = []" "readyState (twins v) = (\<lambda>_. CONNECTING)(1 := OPEN, 2 := OPEN)"
  by (cases v; simp add: twins_def handleWebSocket_def Let_def init_def sendToClient_def log_def)+

lemma twinsLobby_fields:
  "rooms (twinsLobby v)
     = [(Str ''lobby'', [(Str ''alice'', \<lparr>socket = 1, socketId = ''socket_4fzyo82mv''\<rparr>),
                        (Str ''bob'', \<lparr>socket = 2, socketId = ''socket_4fzyo82mv''\<rparr>)])]"
  "readyState (twinsLobby v) = (\<lambda>_. CONNECTING)(1 := OPEN, 2 := OPEN)"
  by (simp_all add: twinsLobby_def onMessage_def parsed_def keysOf_def joinMsg_def
      handleJoinRoom_def Let_def broadcastToRoom_def sendToClient_def log_def twins_fields)

lemma clientsOf_twinsLobby:
  "clientsOf (twinsLobby v) (Str ''lobby'')
     = [(Str ''alice'', \<lparr>socket = 1, socketId = ''socket_4fzyo82mv''\<rparr>),
        (Str ''bob'', \<lparr>socket = 2, socketId = ''socket_4fzyo82mv''\<rparr>)]"
  by (simp add: clientsOf_def twinsLobby_fields)

lemma reach_twins: "reach v [(2, ''socket_4fzyo82mv''), (1, ''socket_4fzyo82mv'')] (twins v)"
proof -
  let ?s1 = "snd (handleWebSocket v (Str ''websocket'') ''0.4fzyo82mvyr'' 1 init)"
  have 1: "reach v [(1, ''socket_4fzyo82mv'')] ?s1"
    by (rule reach_accept [OF reach_init, where rnd = "''0.4fzyo82mvyr''"])
      (simp_all add: handleWebSocket_def Let_def twins_ids)
  show ?thesis
    unfolding twins_def
    by (rule reach_accept [OF 1, where rnd = "''0.4fzyo82mvzz''"])
      (simp_all add: handleWebSocket_def Let_def twins_ids)
qed

lemma reach_twinsLobby:
  "reach v [(2, ''socket_4fzyo82mv''), (1, ''socket_4fzyo82mv'')] (twinsLobby v)"
  unfolding twinsLobby_def by (intro reach_message reach_twins) simp_all

subsection \<open>Closing a connection\<close>

lemma closeBookkeeping_fields:
  "rooms (case v of Worker \<Rightarrow> s
          | OnDemand \<Rightarrow> checkIdleShutdown (log l (s\<lparr>activeConnections := a\<rparr>))) = rooms s"
  "sent (case v of Worker \<Rightarrow> s
         | OnDemand \<Rightarrow> checkIdleShutdown (log l (s\<lparr>activeConnections := a\<rparr>))) = sent s"
  "readyState (case v of Worker \<Rightarrow> s
               | OnDemand \<Rightarrow> checkIdleShutdown (log l (s\<lparr>activeConnections := a\<rparr>))) = readyState s"
  by (simp_all add: checkIdleShutdown_def log_def split: variant.split)

lemma strayJoined_fields:
  "rooms (strayJoined v) = [(Str ''lobby'', [(Obj 1 True, \<lparr>socket = 1, socketId = sidA\<rparr>)])]"
  "sent (strayJoined v) = sent (opened v)"
  by (simp_all add: strayJoined_def onMessage_def parsed_def keysOf_def joinMsg_def noString_def
      handleJoinRoom_def Let_def log_def opened_fields)

lemma close_stray:
  assumes "rooms s = [(Str ''lobby'', [(Obj 1 True, \<lparr>socket = 1, socketId = sidA\<rparr>)])]"
  shows "closeRooms 1 sidA (map fst (rooms s)) s = Throws (s\<lparr>rooms := [(Str ''lobby'', [])]\<rparr>)"
  by (simp add: assms clientsOf_def handleLeaveRoom_def leaveData_def Let_def)

lemma denLobby_fields:
  "rooms (denLobby v) =
     [(Str ''den'', [(Obj 1 True, \<lparr>socket = 1, socketId = sidA\<rparr>)]),
      (Str ''lobby'', [(Str ''alice'', \<lparr>socket = 1, socketId = sidA\<rparr>),
                       (Str ''bob'', \<lparr>socket = 2, socketId = sidB\<rparr>)])]"
  "readyState (denLobby v) = (\<lambda>_. CONNECTING)(1 := OPEN, 2 := OPEN, 3 := OPEN)"
  by (simp_all add: denLobby_def onMessage_def parsed_def keysOf_def joinMsg_def noString_def
      handleJoinRoom_def Let_def broadcastToRoom_def sendToClient_def log_def sid_values
      opened_fields)

lemma reach_denLobby: "reach v [(3, sidC), (2, sidB), (1, sidA)] (denLobby v)"
  unfolding denLobby_def
  by (intro reach_message reach_opened) simp_all

lemma close_den:
  assumes "rooms s =
     [(Str ''den'', [(Obj 1 True, \<lparr>socket = 1, socketId = sidA\<rparr>)]),
      (Str ''lobby'', [(Str ''alice'', \<lparr>socket = 1, socketId = sidA\<rparr>),
                       (Str ''bob'', \<lparr>socket = 2, socketId = sidB\<rparr>)])]"
  shows "closeRooms 1 sidA (map fst (rooms s)) s
         = Throws (s\<lparr>rooms := [(Str ''den'', []),
                                (Str ''lobby'', [(Str ''alice'', \<lparr>socket = 1, socketId = sidA\<rparr>),
                                                 (Str ''bob'', \<lparr>socket = 2, socketId = sidB\<rparr>)])]\<rparr>)"
  by (simp add: assms clientsOf_def handleLeaveRoom_def leaveData_def Let_def)

lemma close_twin:
  assumes "rooms s
     = [(Str ''lobby'', [(Str ''alice'', \<lparr>socket = 1, socketId = ''socket_4fzyo82mv''\<rparr>),
                        (Str ''bob'', \<lparr>socket = 2, socketId = ''socket_4fzyo82mv''\<rparr>)])]"
  shows "\<exists>t. closeRooms 1 ''socket_4fzyo82mv'' (map fst (rooms s)) s = Returns t
             \<and> rooms t = [] \<and> sent t = sent s"
  by (simp add: assms clientsOf_def handleLeaveRoom_def leaveData_def Let_def
      broadcastToRoom_def sendToClient_def log_def)

subsection \<open>Leaving twice\<close>

lemma handleLeaveRoom_twice:
  assumes p: "\<not> toStringThrows (roomId d)" "\<not> toStringThrows (userId d)"
  shows "rooms (stateOf (handleLeaveRoom k sid d (stateOf (handleLeaveRoom k sid d s))))
           = rooms (stateOf (handleLeaveRoom k sid d s))"
    and "sent (stateOf (handleLeaveRoom k sid d (stateOf (handleLeaveRoom k sid d s))))
           = sent (stateOf (handleLeaveRoom k sid d s)) @
             (if map_of (rooms (stateOf (handleLeaveRoom k sid d s))) (roomId d) = None then []
              else map (\<lambda>w. (w, PeerLeft (roomId d) (userId d)))
                     (openOthers (readyState s) sid
                        (AList.delete (userId d) (clientsOf s (roomId d)))))"
proof -
  note c = handleLeaveRoom_closed [OF p]
  show "rooms (stateOf (handleLeaveRoom k sid d (stateOf (handleLeaveRoom k sid d s))))
           = rooms (stateOf (handleLeaveRoom k sid d s))"
  proof (cases "map_of (rooms s) (roomId d)")
    case None
    then show ?thesis by (simp add: c)
  next
    case (Some room)
    show ?thesis
    proof (cases "AList.delete (userId d) room = []")
      case True
      with Some show ?thesis
        by (simp add: c AList.delete_conv')
    next
      case False
      with Some show ?thesis
        by (simp add: c AList.update_conv' AList.delete_idem)
    qed
  qed
  show "sent (stateOf (handleLeaveRoom k sid d (stateOf (handleLeaveRoom k sid d s))))
           = sent (stateOf (handleLeaveRoom k sid d s)) @
             (if map_of (rooms (stateOf (handleLeaveRoom k sid d s))) (roomId d) = None then []
              else map (\<lambda>w. (w, PeerLeft (roomId d) (userId d)))
                     (openOthers (readyState s) sid
                        (AList.delete (userId d) (clientsOf s (roomId d)))))"
  proof (cases "map_of (rooms s) (roomId d)")
    case None
    then show ?thesis by (simp add: c)
  next
    case (Some room)
    show ?thesis
    proof (cases "AList.delete (userId d) room = []")
      case True
      with Some show ?thesis
        by (simp add: c AList.delete_conv')
    next
      case False
      with Some show ?thesis
        by (simp add: c AList.update_conv' AList.delete_idem clientsOf_def)
    qed
  qed
qed

section \<open>The claims\<close>

text \<open>
  C1, where the code departs from it. The sender is excluded by its \<^verbatim>\<open>socketId\<close>, and
  \<^verbatim>\<open>// Generate a unique socket ID\<close> draws one that another connection may hold. With
  connections 1 and 2 holding \<^verbatim>\<open>socket_4fzyo82mv\<close> and both in the lobby, a broadcast
  that excludes connection 1 sends nothing, whatever the message: bob, on connection 2, is
  another client of the room, and open.
\<close>

theorem broadcast_skips_twin:
  "reach v [(2, ''socket_4fzyo82mv''), (1, ''socket_4fzyo82mv'')] (twinsLobby v)
   \<and> clientsOf (twinsLobby v) (Str ''lobby'')
       = [(Str ''alice'', \<lparr>socket = 1, socketId = ''socket_4fzyo82mv''\<rparr>),
          (Str ''bob'', \<lparr>socket = 2, socketId = ''socket_4fzyo82mv''\<rparr>)]
   \<and> readyState (twinsLobby v) 2 = OPEN
   \<and> broadcastToRoom (Str ''lobby'') m ''socket_4fzyo82mv'' (twinsLobby v) = twinsLobby v"
  using reach_twinsLobby [of v]
  by (simp add: clientsOf_twinsLobby twinsLobby_fields broadcastToRoom_def)

text \<open>
  C2, as the code has it. \<^verbatim>\<open>handleLeaveRoom\<close> returns nothing. When \<open>roomId\<close> and
  \<open>userId\<close> have a string form, the call does nothing if the room is absent; if the room is
  there it removes the entry of \<open>userId\<close>, logs, sends \<^verbatim>\<open>peer-left\<close> to the entries
  that remain (other \<^verbatim>\<open>socketId\<close>, open socket), whether or not \<open>userId\<close> had an
  entry, and deletes the room when no entry remains. A second call right after the first
  leaves the registry as the first left it, and sends \<^verbatim>\<open>peer-left\<close> to the same sockets
  again exactly when the room still exists.
\<close>

theorem handleLeaveRoom_broadcasts_iff_room:
  assumes "\<not> toStringThrows (roomId d)" and "\<not> toStringThrows (userId d)"
  shows "handleLeaveRoom k sid d s =
     Returns
       (case map_of (rooms s) (roomId d) of
          None \<Rightarrow> s
        | Some room \<Rightarrow>
            s\<lparr>rooms := (if AList.delete (userId d) room = [] then AList.delete (roomId d) (rooms s)
                        else AList.update (roomId d) (AList.delete (userId d) room) (rooms s)),
              sent := sent s @ map (\<lambda>w. (w, PeerLeft (roomId d) (userId d)))
                                 (openOthers (readyState s) sid (AList.delete (userId d) room)),
              console := console s @ [LogUserLeft (userId d) (roomId d),
                                      LogRoomHas (roomId d) (length (AList.delete (userId d) room))]
                           @ (if AList.delete (userId d) room = [] then [LogRoomRemoved (roomId d)]
                              else [])\<rparr>)
   \<and> rooms (stateOf (handleLeaveRoom k sid d (stateOf (handleLeaveRoom k sid d s))))
       = rooms (stateOf (handleLeaveRoom k sid d s))
   \<and> sent (stateOf (handleLeaveRoom k sid d (stateOf (handleLeaveRoom k sid d s))))
       = sent (stateOf (handleLeaveRoom k sid d s)) @
         (if map_of (rooms (stateOf (handleLeaveRoom k sid d s))) (roomId d) = None then []
          else map (\<lambda>w. (w, PeerLeft (roomId d) (userId d)))
                 (openOthers (readyState s) sid
                    (AList.delete (userId d) (clientsOf s (roomId d)))))"
  using handleLeaveRoom_closed [OF assms, of k sid s] handleLeaveRoom_twice [OF assms, of k sid s]
  by (simp only: simp_thms)

theorem handleLeaveRoom_broadcasts_iff_room_witness:
  "\<not> toStringThrows (roomId (leaveMsg (Str ''lobby'') (Str ''alice'')))
   \<and> \<not> toStringThrows (userId (leaveMsg (Str ''lobby'') (Str ''alice'')))
   \<and> handleLeaveRoom 1 sidA (leaveMsg (Str ''lobby'') (Str ''alice'')) (lobbyA OnDemand)
       = Returns ((lobbyA OnDemand)
           \<lparr>rooms := [],
            sent := sent (lobbyA OnDemand),
            console := console (lobbyA OnDemand)
               @ [LogUserLeft (Str ''alice'') (Str ''lobby''), LogRoomHas (Str ''lobby'') 0,
                  LogRoomRemoved (Str ''lobby'')]\<rparr>)"
proof -
  have a: "\<not> toStringThrows (roomId (leaveMsg (Str ''lobby'') (Str ''alice'')))"
    and b: "\<not> toStringThrows (userId (leaveMsg (Str ''lobby'') (Str ''alice'')))"
    by (simp_all add: leaveMsg_def)
  note t = handleLeaveRoom_broadcasts_iff_room [OF a b, of 1 sidA "lobbyA OnDemand", THEN conjunct1]
  have "rooms (lobbyA OnDemand) = [(Str ''lobby'', [(Str ''alice'', \<lparr>socket = 1, socketId = sidA\<rparr>)])]"
    by (simp add: lobbyA_OnDemand sid_values)
  with t have "handleLeaveRoom 1 sidA (leaveMsg (Str ''lobby'') (Str ''alice'')) (lobbyA OnDemand)
       = Returns ((lobbyA OnDemand)
           \<lparr>rooms := [],
            sent := sent (lobbyA OnDemand),
            console := console (lobbyA OnDemand)
               @ [LogUserLeft (Str ''alice'') (Str ''lobby''), LogRoomHas (Str ''lobby'') 0,
                  LogRoomRemoved (Str ''lobby'')]\<rparr>)"
    by (simp add: leaveMsg_def openOthers_def)
  with a b show ?thesis by blast
qed

text \<open>
  The claim as stated fails: alice leaves the lobby twice; the second call removes nothing,
  and bob is sent a second \<^verbatim>\<open>peer-left\<close>.
\<close>

theorem leave_twice_counterexample:
  "map_of (clientsOf (onMessage OnDemand 1 sidA (Parsed (leaveMsg (Str ''lobby'') (Str ''alice'')))
       (lobbyAB OnDemand)) (Str ''lobby'')) (Str ''alice'') = None
   \<and> sent (onMessage OnDemand 1 sidA (Parsed (leaveMsg (Str ''lobby'') (Str ''alice'')))
       (lobbyAB OnDemand))
     = sent (lobbyAB OnDemand) @ [(2, PeerLeft (Str ''lobby'') (Str ''alice''))]
   \<and> sent (onMessage OnDemand 1 sidA (Parsed (leaveMsg (Str ''lobby'') (Str ''alice'')))
       (onMessage OnDemand 1 sidA (Parsed (leaveMsg (Str ''lobby'') (Str ''alice'')))
         (lobbyAB OnDemand)))
     = sent (lobbyAB OnDemand) @ [(2, PeerLeft (Str ''lobby'') (Str ''alice'')),
                                  (2, PeerLeft (Str ''lobby'') (Str ''alice''))]"
  by (simp add: onMessage_def Let_def parsed_strings)
    (simp add: leaveMsg_def handleLeaveRoom_def Let_def broadcastToRoom_def sendToClient_def
      log_def lobbyAB_OnDemand clientsOf_def sid_values)

text \<open>
  C3, where the code departs from it. Connection 1 joins the lobby under a user id that has
  no string form (an object whose own \<^verbatim>\<open>toString\<close> is not callable, such as
  \<^verbatim>\<open>{"toString": null}\<close>), which registers it, and then closes. The close listener
  removes the entry, and \<^verbatim>\<open>handleLeaveRoom\<close> throws at its log line, before the lines
  under \<^verbatim>\<open>// Remove room if empty\<close>: the registry keeps the lobby with no client in
  it.
\<close>

theorem close_leaves_empty_room:
  "reach v [(3, sidC), (2, sidB), (1, sidA)] (strayClosed v)
   \<and> rooms (strayJoined v) = [(Str ''lobby'', [(Obj 1 True, \<lparr>socket = 1, socketId = sidA\<rparr>)])]
   \<and> onClose v 1 sidA (strayJoined v) = Throws (strayClosed v)
   \<and> rooms (strayClosed v) = [(Str ''lobby'', [])]"
proof -
  have r: "reach v [(3, sidC), (2, sidB), (1, sidA)] (strayClosed v)"
    unfolding strayClosed_def strayJoined_def
    by (intro reach_close reach_message reach_opened) simp_all
  define s1 where "s1 = (case v of
      Worker \<Rightarrow> strayJoined v
    | OnDemand \<Rightarrow>
        checkIdleShutdown
          (log (LogConnectionClosed (activeConnections (strayJoined v) - 1))
             ((strayJoined v)\<lparr>activeConnections := activeConnections (strayJoined v) - 1\<rparr>)))"
  have "rooms s1 = [(Str ''lobby'', [(Obj 1 True, \<lparr>socket = 1, socketId = sidA\<rparr>)])]"
    unfolding s1_def closeBookkeeping_fields by (rule strayJoined_fields)
  then have "closeRooms 1 sidA (map fst (rooms s1)) s1 = Throws (s1\<lparr>rooms := [(Str ''lobby'', [])]\<rparr>)"
    by (rule close_stray)
  then have c: "onClose v 1 sidA (strayJoined v) = Throws (s1\<lparr>rooms := [(Str ''lobby'', [])]\<rparr>)"
    by (simp add: onClose_def Let_def s1_def)
  then have e: "strayClosed v = s1\<lparr>rooms := [(Str ''lobby'', [])]\<rparr>"
    by (simp add: strayClosed_def)
  from r c e show ?thesis
    by (simp add: strayJoined_fields)
qed

text \<open>
  C4, where the code departs from it. Connection 3 sends a \<^verbatim>\<open>join-room\<close> for the lobby,
  where alice and bob are registered and open, with a user id that has no string form. The
  entry is registered, and then the log line throws: the handler of the message logs
  \<^verbatim>\<open>Error handling message\<close>, and no \<^verbatim>\<open>peer-joined\<close> is sent.
\<close>

theorem join_registers_then_throws:
  "onMessage v 3 sidC (Parsed (joinMsg (Str ''lobby'') noString)) (lobbyAB v)
     = (lobbyAB v)\<lparr>rooms := [(Str ''lobby'', [(Str ''alice'', \<lparr>socket = 1, socketId = sidA\<rparr>),
                                               (Str ''bob'', \<lparr>socket = 2, socketId = sidB\<rparr>),
                                               (Obj 1 True, \<lparr>socket = 3, socketId = sidC\<rparr>)])],
                    console := console (lobbyAB v) @ [LogErrorHandling]\<rparr>
   \<and> reach v [(3, sidC), (2, sidB), (1, sidA)] (lobbyAB v)
   \<and> readyState (lobbyAB v) 1 = OPEN \<and> readyState (lobbyAB v) 2 = OPEN
   \<and> sidA \<noteq> sidC \<and> sidB \<noteq> sidC"
  using reach_lobbyAB [of v]
  by (simp add: onMessage_def parsed_def keysOf_def joinMsg_def noString_def
      handleJoinRoom_def Let_def log_def lobbyAB_fields)
    (simp add: sid_values)

text \<open>
  C5, where the code departs from it. The close listener calls \<^verbatim>\<open>handleLeaveRoom\<close> with no
  \<^verbatim>\<open>try\<close> around it, so the first call that throws ends both loops. Connection 1 is
  registered in the room den under a user id that has no string form, and in the lobby as
  alice, beside bob on connection 2. When connection 1 closes, its entry in den is removed,
  the log line throws, and the lobby is never visited: alice stays registered there and bob
  is sent no \<^verbatim>\<open>peer-left\<close>. And the memberships of a connection are found by its
  \<^verbatim>\<open>socketId\<close>: when connections 1 and 2 hold the same one and are both in the lobby,
  closing connection 1 removes the entry of connection 2 as well, and nothing is sent to
  connection 2.
\<close>

theorem close_stops_at_throw:
  "reach v [(3, sidC), (2, sidB), (1, sidA)] (denLobby v)
   \<and> rooms (denLobby v) =
       [(Str ''den'', [(Obj 1 True, \<lparr>socket = 1, socketId = sidA\<rparr>)]),
        (Str ''lobby'', [(Str ''alice'', \<lparr>socket = 1, socketId = sidA\<rparr>),
                         (Str ''bob'', \<lparr>socket = 2, socketId = sidB\<rparr>)])]
   \<and> readyState (denLobby v) 2 = OPEN
   \<and> onClose v 1 sidA (denLobby v) = Throws (stateOf (onClose v 1 sidA (denLobby v)))
   \<and> rooms (stateOf (onClose v 1 sidA (denLobby v))) =
       [(Str ''den'', []),
        (Str ''lobby'', [(Str ''alice'', \<lparr>socket = 1, socketId = sidA\<rparr>),
                         (Str ''bob'', \<lparr>socket = 2, socketId = sidB\<rparr>)])]
   \<and> sent (stateOf (onClose v 1 sidA (denLobby v))) = sent (denLobby v)
   \<and> rooms (stateOf (onClose v 1 ''socket_4fzyo82mv'' (twinsLobby v))) = []
   \<and> sent (stateOf (onClose v 1 ''socket_4fzyo82mv'' (twinsLobby v))) = sent (twinsLobby v)"
proof -
  define s2 where "s2 = (case v of
      Worker \<Rightarrow> twinsLobby v
    | OnDemand \<Rightarrow>
        checkIdleShutdown
          (log (LogConnectionClosed (activeConnections (twinsLobby v) - 1))
             ((twinsLobby v)\<lparr>activeConnections := activeConnections (twinsLobby v) - 1\<rparr>)))"
  have "rooms s2 = rooms (twinsLobby v)" and s': "sent s2 = sent (twinsLobby v)"
    unfolding s2_def closeBookkeeping_fields by (rule refl)+
  then have "rooms s2
     = [(Str ''lobby'', [(Str ''alice'', \<lparr>socket = 1, socketId = ''socket_4fzyo82mv''\<rparr>),
                        (Str ''bob'', \<lparr>socket = 2, socketId = ''socket_4fzyo82mv''\<rparr>)])]"
    by (simp add: twinsLobby_fields)
  then obtain t where "closeRooms 1 ''socket_4fzyo82mv'' (map fst (rooms s2)) s2 = Returns t"
    and "rooms t = []" and "sent t = sent s2"
    using close_twin [of s2] by blast
  then have tw: "rooms (stateOf (onClose v 1 ''socket_4fzyo82mv'' (twinsLobby v))) = []
      \<and> sent (stateOf (onClose v 1 ''socket_4fzyo82mv'' (twinsLobby v))) = sent (twinsLobby v)"
    using s' by (simp add: onClose_def Let_def s2_def)
  define s1 where "s1 = (case v of
      Worker \<Rightarrow> denLobby v
    | OnDemand \<Rightarrow>
        checkIdleShutdown
          (log (LogConnectionClosed (activeConnections (denLobby v) - 1))
             ((denLobby v)\<lparr>activeConnections := activeConnections (denLobby v) - 1\<rparr>)))"
  have "rooms s1 = rooms (denLobby v)" and s: "sent s1 = sent (denLobby v)"
    unfolding s1_def closeBookkeeping_fields by (rule refl)+
  then have "rooms s1 =
     [(Str ''den'', [(Obj 1 True, \<lparr>socket = 1, socketId = sidA\<rparr>)]),
      (Str ''lobby'', [(Str ''alice'', \<lparr>socket = 1, socketId = sidA\<rparr>),
                       (Str ''bob'', \<lparr>socket = 2, socketId = sidB\<rparr>)])]"
    by (simp add: denLobby_fields)
  then have "closeRooms 1 sidA (map fst (rooms s1)) s1
         = Throws (s1\<lparr>rooms := [(Str ''den'', []),
                                (Str ''lobby'', [(Str ''alice'', \<lparr>socket = 1, socketId = sidA\<rparr>),
                                                 (Str ''bob'', \<lparr>socket = 2, socketId = sidB\<rparr>)])]\<rparr>)"
    by (rule close_den)
  then have c: "onClose v 1 sidA (denLobby v)
         = Throws (s1\<lparr>rooms := [(Str ''den'', []),
                                (Str ''lobby'', [(Str ''alice'', \<lparr>socket = 1, socketId = sidA\<rparr>),
                                                 (Str ''bob'', \<lparr>socket = 2, socketId = sidB\<rparr>)])]\<rparr>)"
    by (simp add: onClose_def Let_def s1_def)
  show ?thesis
    unfolding c using s tw reach_denLobby [of v] by (simp add: denLobby_fields)
qed

text \<open>
  C6, as the code has it. A message that is not JSON, or is the JSON \<^verbatim>\<open>null\<close>, is
  caught: the error is logged and nothing else changes (registry, messages sent, sockets).
  No message closes a connection. The fields of a message that parses are not checked: a
  \<^verbatim>\<open>join-room\<close> whose \<open>roomId\<close> and \<open>userId\<close> have a string form, as a missing field
  (\<open>Undefined\<close>) has, runs \<^verbatim>\<open>handleJoinRoom\<close> to its end, so it registers the connection
  under those keys, logs the join and no error, and sends \<^verbatim>\<open>peer-joined\<close> to the others
  in the room.
\<close>

theorem malformed_message_handling:
  "onMessage v k sid Unparseable s = s\<lparr>console := console s @ [LogErrorHandling]\<rparr>
   \<and> onMessage v k sid ParsedNull s = s\<lparr>console := console s @ [LogErrorHandling]\<rparr>
   \<and> readyState (onMessage v k sid d s) = readyState s
   \<and> (msgType m = Str ''join-room'' \<and> \<not> toStringThrows (roomId m) \<and> \<not> toStringThrows (userId m) \<longrightarrow>
        onMessage v k sid (Parsed m) s =
          (let r = roomId (parsed s m); u = userId (parsed s m);
               room = AList.update u \<lparr>socket = k, socketId = sid\<rparr> (clientsOf s r)
           in s\<lparr>rooms := AList.update r room (rooms s),
                sent := sent s @ map (\<lambda>w. (w, PeerJoined r u)) (openOthers (readyState s) sid room),
                console := console s @ [LogUserJoined u r, LogRoomHas r (length room)]\<rparr>))"
proof (intro conjI impI)
  show "onMessage v k sid Unparseable s = s\<lparr>console := console s @ [LogErrorHandling]\<rparr>"
    by (simp add: onMessage_def log_def)
  show "onMessage v k sid ParsedNull s = s\<lparr>console := console s @ [LogErrorHandling]\<rparr>"
    by (simp add: onMessage_def log_def)
  show "readyState (onMessage v k sid d s) = readyState s"
    by (rule readyState_onMessage)
  assume a: "msgType m = Str ''join-room'' \<and> \<not> toStringThrows (roomId m) \<and> \<not> toStringThrows (userId m)"
  then have "\<not> toStringThrows (roomId (parsed s m))" and "\<not> toStringThrows (userId (parsed s m))"
    by (simp_all add: parsed_def Let_def)
  then show "onMessage v k sid (Parsed m) s =
          (let r = roomId (parsed s m); u = userId (parsed s m);
               room = AList.update u \<lparr>socket = k, socketId = sid\<rparr> (clientsOf s r)
           in s\<lparr>rooms := AList.update r room (rooms s),
                sent := sent s @ map (\<lambda>w. (w, PeerJoined r u)) (openOthers (readyState s) sid room),
                console := console s @ [LogUserJoined u r, LogRoomHas r (length room)]\<rparr>)"
    using a by (simp add: onMessage_join handleJoinRoom_closed Let_def)
qed

theorem malformed_message_handling_witness:
  "msgType (joinMsg (Str ''lobby'') Undefined) = Str ''join-room''
   \<and> \<not> toStringThrows (roomId (joinMsg (Str ''lobby'') Undefined))
   \<and> \<not> toStringThrows (userId (joinMsg (Str ''lobby'') Undefined))
   \<and> rooms (onMessage OnDemand 3 sidC Unparseable (lobbyAB OnDemand)) = rooms (lobbyAB OnDemand)
   \<and> sent (onMessage OnDemand 3 sidC Unparseable (lobbyAB OnDemand)) = sent (lobbyAB OnDemand)
   \<and> readyState (onMessage OnDemand 3 sidC Unparseable (lobbyAB OnDemand)) 3 = OPEN
   \<and> map_of (clientsOf (onMessage OnDemand 3 sidC (Parsed (joinMsg (Str ''lobby'') Undefined))
        (lobbyAB OnDemand)) (Str ''lobby'')) Undefined = Some \<lparr>socket = 3, socketId = sidC\<rparr>"
proof -
  have a: "msgType (joinMsg (Str ''lobby'') Undefined) = Str ''join-room''
      \<and> \<not> toStringThrows (roomId (joinMsg (Str ''lobby'') Undefined))
      \<and> \<not> toStringThrows (userId (joinMsg (Str ''lobby'') Undefined))"
    by (simp add: joinMsg_def)
  have r: "roomId (joinMsg (Str ''lobby'') Undefined) = Str ''lobby''"
    "userId (joinMsg (Str ''lobby'') Undefined) = Undefined"
    by (simp_all add: joinMsg_def)
  have o: "readyState (lobbyAB OnDemand) 3 = OPEN"
    by (simp add: lobbyAB_OnDemand)
  note t = malformed_message_handling [of OnDemand 3 sidC "lobbyAB OnDemand" Unparseable
      "joinMsg (Str ''lobby'') Undefined"]
  from t a have "onMessage OnDemand 3 sidC (Parsed (joinMsg (Str ''lobby'') Undefined)) (lobbyAB OnDemand) =
          (let r = roomId (parsed (lobbyAB OnDemand) (joinMsg (Str ''lobby'') Undefined));
               u = userId (parsed (lobbyAB OnDemand) (joinMsg (Str ''lobby'') Undefined));
               room = AList.update u \<lparr>socket = 3, socketId = sidC\<rparr> (clientsOf (lobbyAB OnDemand) r)
           in (lobbyAB OnDemand)\<lparr>rooms := AList.update r room (rooms (lobbyAB OnDemand)),
                sent := sent (lobbyAB OnDemand)
                   @ map (\<lambda>w. (w, PeerJoined r u)) (openOthers (readyState (lobbyAB OnDemand)) sidC room),
                console := console (lobbyAB OnDemand) @ [LogUserJoined u r, LogRoomHas r (length room)]\<rparr>)"
    by blast
  then have 1: "map_of (clientsOf (onMessage OnDemand 3 sidC (Parsed (joinMsg (Str ''lobby'') Undefined))
        (lobbyAB OnDemand)) (Str ''lobby'')) Undefined = Some \<lparr>socket = 3, socketId = sidC\<rparr>"
    by (simp add: Let_def parsed_strings r clientsOf_def AList.update_conv')
  from t have 2: "onMessage OnDemand 3 sidC Unparseable (lobbyAB OnDemand)
      = (lobbyAB OnDemand)\<lparr>console := console (lobbyAB OnDemand) @ [LogErrorHandling]\<rparr>"
    by blast
  from a 1 2 o show ?thesis by simp
qed

text \<open>
  The claim as stated fails: a \<^verbatim>\<open>join-room\<close> without \<^verbatim>\<open>userId\<close> on connection
  3 changes the registry, is broadcast to alice and bob, and logs no error.
\<close>

theorem join_without_userId_counterexample:
  "rooms (onMessage OnDemand 3 sidC (Parsed (joinMsg (Str ''lobby'') Undefined)) (lobbyAB OnDemand))
     = [(Str ''lobby'', [(Str ''alice'', \<lparr>socket = 1, socketId = sidA\<rparr>),
                        (Str ''bob'', \<lparr>socket = 2, socketId = sidB\<rparr>),
                        (Undefined, \<lparr>socket = 3, socketId = sidC\<rparr>)])]
   \<and> sent (onMessage OnDemand 3 sidC (Parsed (joinMsg (Str ''lobby'') Undefined)) (lobbyAB OnDemand))
     = sent (lobbyAB OnDemand) @ [(1, PeerJoined (Str ''lobby'') Undefined),
                                  (2, PeerJoined (Str ''lobby'') Undefined)]
   \<and> console (onMessage OnDemand 3 sidC (Parsed (joinMsg (Str ''lobby'') Undefined)) (lobbyAB OnDemand))
     = console (lobbyAB OnDemand) @ [LogUserJoined Undefined (Str ''lobby''), LogRoomHas (Str ''lobby'') 3]"
  by (simp add: onMessage_def Let_def parsed_strings)
    (simp add: joinMsg_def handleJoinRoom_def Let_def broadcastToRoom_def sendToClient_def
      log_def lobbyAB_OnDemand sid_values)

text \<open>
  C7, where the code departs from it. The sender of a relayed message is excluded by its
  \<^verbatim>\<open>socketId\<close>, which another connection may hold. With connections 1 and 2 holding
  \<^verbatim>\<open>socket_4fzyo82mv\<close> and both in the lobby, connection 2, registered as bob, sends
  an \<^verbatim>\<open>offer\<close>, an \<^verbatim>\<open>answer\<close> and an \<^verbatim>\<open>ice-candidate\<close> to the lobby.
  Alice, on connection 1, is a peer in that room and open; each of the three messages
  leaves the state as it was, so nothing is relayed to her.
\<close>

theorem relay_skips_twin:
  "map_of (clientsOf (twinsLobby v) (Str ''lobby'')) (Str ''alice'')
       = Some \<lparr>socket = 1, socketId = ''socket_4fzyo82mv''\<rparr>
   \<and> readyState (twinsLobby v) 1 = OPEN
   \<and> onMessage v 2 ''socket_4fzyo82mv''
        (Parsed (offerMsg (Str ''lobby'') (Str ''bob'') (Obj 7 False))) (twinsLobby v) = twinsLobby v
   \<and> onMessage v 2 ''socket_4fzyo82mv''
        (Parsed (answerMsg (Str ''lobby'') (Str ''bob'') (Obj 7 False))) (twinsLobby v) = twinsLobby v
   \<and> onMessage v 2 ''socket_4fzyo82mv''
        (Parsed (candidateMsg (Str ''lobby'') (Str ''bob'') (Obj 7 False))) (twinsLobby v) = twinsLobby v"
  by (simp add: clientsOf_twinsLobby twinsLobby_fields onMessage_def parsed_def Let_def
      offerMsg_def answerMsg_def candidateMsg_def handleOffer_def handleAnswer_def
      handleIceCandidate_def broadcastToRoom_def)

text \<open>
  C8, as the code has it. On an open connection a \<^verbatim>\<open>heartbeat\<close> is answered in the
  On-Demand variant: \<^verbatim>\<open>heartbeat-ack\<close> is sent to that connection's socket, and nothing
  else changes (no broadcast, the registry as it was). \<^verbatim>\<open>src/worker.js\<close> has no
  such case: there the message is logged as an unknown type, and nothing is sent.
\<close>

theorem heartbeat_reply:
  assumes "msgType m = Str ''heartbeat''" and "readyState s k = OPEN"
  shows "onMessage OnDemand k sid (Parsed m) s = s\<lparr>sent := sent s @ [(k, HeartbeatAck)]\<rparr>
     \<and> onMessage Worker k sid (Parsed m) s
         = s\<lparr>console := console s @ [LogUnknownType (Str ''heartbeat'')]\<rparr>"
  using assms by (simp add: onMessage_def Let_def sendToClient_def log_def)

theorem heartbeat_reply_witness:
  "msgType heartbeatMsg = Str ''heartbeat''
   \<and> readyState (lobbyAB OnDemand) 1 = OPEN
   \<and> sent (onMessage OnDemand 1 sidA (Parsed heartbeatMsg) (lobbyAB OnDemand))
       = sent (lobbyAB OnDemand) @ [(1, HeartbeatAck)]
   \<and> rooms (onMessage OnDemand 1 sidA (Parsed heartbeatMsg) (lobbyAB OnDemand))
       = rooms (lobbyAB OnDemand)"
proof -
  have a: "msgType heartbeatMsg = Str ''heartbeat''"
    by (simp add: heartbeatMsg_def)
  have b: "readyState (lobbyAB OnDemand) 1 = OPEN"
    by (simp add: lobbyAB_OnDemand)
  from heartbeat_reply [OF a b, of sidA] a b show ?thesis
    by simp
qed

text \<open>
  The claim as stated fails in \<^verbatim>\<open>src/worker.js\<close>: connection 1 is open, sends a
  \<^verbatim>\<open>heartbeat\<close>, and is sent nothing.
\<close>

theorem heartbeat_worker_counterexample:
  "readyState (opened Worker) 1 = OPEN
   \<and> sent (onMessage Worker 1 sidA (Parsed heartbeatMsg) (opened Worker)) = sent (opened Worker)
   \<and> console (onMessage Worker 1 sidA (Parsed heartbeatMsg) (opened Worker))
       = console (opened Worker) @ [LogUnknownType (Str ''heartbeat'')]"
  by (simp add: onMessage_def Let_def heartbeatMsg_def log_def opened_Worker)

text \<open>
  C9. The identifier is drawn once, when the connection is accepted, but nothing keeps two
  connections from drawing the same one: the texts \<^verbatim>\<open>0.4fzyo82mvyr\<close> and
  \<^verbatim>\<open>0.4fzyo82mvzz\<close> agree on the nine characters \<^verbatim>\<open>substr(2, 9)\<close> keeps, and
  the worker reaches a state with two accepted connections, sockets 1 and 2, that share
  \<^verbatim>\<open>socket_4fzyo82mv\<close>. When both have joined the lobby, an \<^verbatim>\<open>offer\<close> from
  connection 1 is sent to no one, though connection 2 is registered there and open.
\<close>

theorem twins_share_socketId:
  "reach v [(2, ''socket_4fzyo82mv''), (1, ''socket_4fzyo82mv'')] (twins v)
   \<and> reach v [(2, ''socket_4fzyo82mv''), (1, ''socket_4fzyo82mv'')] (twinsLobby v)
   \<and> (Str ''bob'', \<lparr>socket = 2, socketId = ''socket_4fzyo82mv''\<rparr>)
        \<in> set (clientsOf (twinsLobby v) (Str ''lobby''))
   \<and> readyState (twinsLobby v) 2 = OPEN
   \<and> onMessage v 1 ''socket_4fzyo82mv'' (Parsed (offerMsg (Str ''lobby'') (Str ''alice'') (Obj 7 False)))
        (twinsLobby v) = twinsLobby v"
proof -
  have "onMessage v 1 ''socket_4fzyo82mv'' (Parsed (offerMsg (Str ''lobby'') (Str ''alice'') (Obj 7 False)))
        (twinsLobby v) = twinsLobby v"
    by (simp add: onMessage_def Let_def parsed_strings)
      (simp add: offerMsg_def handleOffer_def broadcastToRoom_eq clientsOf_twinsLobby
        twinsLobby_fields openOthers_def)
  with reach_twins [of v] reach_twinsLobby [of v] show ?thesis
    by (simp add: clientsOf_twinsLobby twinsLobby_fields)
qed



end
